theory Spec2Isabelle
  imports Main "HOL-Library.Word"
begin

section \<open>The UDP transport module of pppoat (src/modules/udp.c)\<close>

text \<open>
  The module talks to the operating system and to helpers of the surrounding program.
  Every such call is an event of the model: the call with its arguments, paired with
  the outcome the environment gave. The forwarding loop and the send loop run against a
  script of outcomes, consumed one per call in the order the code makes its calls; a
  function returns \<open>None\<close> when the script ends before the code has returned (the
  run is still going on), or when the code dereferences a null pointer. Initialisation is
  straight-line code, so its environment is a record with one outcome per call.
\<close>

subsection \<open>Error numbers and macros\<close>

text \<open>Error numbers of \<open>errno.h\<close>, with their Linux values; \<open>EWOULDBLOCK\<close> is
  \<open>EAGAIN\<close> there.\<close>

definition EINTR :: int where "EINTR = 4"
definition EAGAIN :: int where "EAGAIN = 11"
definition EWOULDBLOCK :: int where "EWOULDBLOCK = 11"
definition ENOMEM :: int where "ENOMEM = 12"
definition EPIPE :: int where "EPIPE = 32"
definition ENOPROTOOPT :: int where "ENOPROTOOPT = 92"

text \<open>Modelled from the spec: \<open>trace.h\<close> is not among the sources. \<open>P_ERR\<close> wraps an
  error code so that its origin is traceable; the value of the expression is the code
  itself ("negative numeric codes mirroring the underlying OS error").\<close>

definition P_ERR :: "int \<Rightarrow> int" where
  "P_ERR error = error"

text \<open>Modelled from the spec: \<open>util.h\<close> is not among the sources. \<open>pppoat_max\<close> is
  the larger of two descriptors, the bound handed to the readiness wait.\<close>

definition pppoat_max :: "int \<Rightarrow> int \<Rightarrow> int" where
  "pppoat_max a b = (if a > b then a else b)"

definition UDP_PORT_MASTER :: "16 word" where "UDP_PORT_MASTER = 0xc001"
definition UDP_PORT_SLAVE :: "16 word" where "UDP_PORT_SLAVE = 0xc001"
definition UDP_HOST_MASTER :: string where "UDP_HOST_MASTER = ''192.168.4.1''"
definition UDP_HOST_SLAVE :: string where "UDP_HOST_SLAVE = ''192.168.4.10''"

subsection \<open>Data\<close>

datatype pppoat_node_type_t = PPPOAT_NODE_MASTER | PPPOAT_NODE_SLAVE

text \<open>The fields of \<open>struct addrinfo\<close> the module reads. The socket address is kept
  abstract as a number.\<close>

record addrinfo =
  ai_family :: int
  ai_socktype :: int
  ai_protocol :: int
  ai_addr :: nat
  ai_addrlen :: nat

text \<open>\<open>struct pppoat_udp_ctx\<close>. A pointer to an address list is an option, \<open>None\<close>
  being \<open>NULL\<close>.\<close>

record pppoat_udp_ctx =
  uc_type :: pppoat_node_type_t
  uc_ainfo :: "addrinfo option"
  uc_sock :: int

subsection \<open>Calls and outcomes of the forwarding side\<close>

text \<open>
  The outcome of one call: its return value, the \<open>errno\<close> it left when it failed, and,
  for the readiness wait, the descriptors flagged in the set when it came back. The code
  reads \<open>errno\<close> only right after a call that returned a negative value, so the
  \<open>errno\<close> of that call's outcome is what it reads.
\<close>

record outcome =
  ret :: int
  errno :: int
  fds :: "int list"

text \<open>
  \<open>Fd_nonblock_set fd on\<close> is \<open>pppoat_util_fd_nonblock_set\<close>; \<open>Util_select max rfds wfds\<close>
  is \<open>pppoat_util_select\<close>, a set being \<open>None\<close> where the code passes \<open>NULL\<close>;
  \<open>Read fd size\<close>, \<open>Recv sock size\<close> are the system calls on the local buffer;
  \<open>Sendto sock buf len addr addrlen\<close> sends \<open>len\<close> bytes starting at offset \<open>buf\<close> of
  the buffer; \<open>Util_write fd len\<close> is \<open>pppoat_util_write\<close>.
\<close>

datatype call =
    Fd_nonblock_set int bool
  | Util_select int "int list option" "int list option"
  | Read int nat
  | Sendto int int int nat nat
  | Recv int nat
  | Util_write int int

type_synonym event = "call \<times> outcome"

type_synonym result = "(int \<times> event list \<times> outcome list) option"

text \<open>The events \<open>evs\<close> happen, then the rest of the computation.\<close>

definition emit :: "event list \<Rightarrow> result \<Rightarrow> result" where
  "emit evs res =
     (case res of None \<Rightarrow> None | Some (rc, evs', env) \<Rightarrow> Some (rc, evs @ evs', env))"

subsection \<open>Sending a buffer\<close>

definition udp_error_is_recoverable :: "int \<Rightarrow> bool" where
  "udp_error_is_recoverable error =
     (error = - EAGAIN \<or> error = - EINTR \<or> error = - EWOULDBLOCK)"

text \<open>
  The \<open>do ... while (rc == 0 && len > 0)\<close> loop of \<open>udp_buf_send\<close>, one equation per
  pass through its body. The first outcome of the script answers \<open>sendto\<close>. On \<open>EINTR\<close>
  the \<open>continue\<close> jumps to the loop condition. Otherwise an error that is not recoverable
  is stored in \<open>rc\<close>; a recoverable one makes the code wait for the socket to be writable
  and stores what \<open>pppoat_util_select\<close> returned in \<open>rc\<close>, as it is; a positive \<open>len2\<close>
  advances \<open>buf\<close> and shortens \<open>len\<close>.
\<close>

fun udp_buf_send_loop ::
  "pppoat_udp_ctx \<Rightarrow> int \<Rightarrow> int \<Rightarrow> int \<Rightarrow> outcome list \<Rightarrow> result" where
  "udp_buf_send_loop ctx buf len rc [] = None"
| "udp_buf_send_loop ctx buf len rc (r # env) =
     (case uc_ainfo ctx of
        None \<Rightarrow> None
      | Some ainfo \<Rightarrow>
          (let len2 = ret r;
               ev = (Sendto (uc_sock ctx) buf len (ai_addr ainfo) (ai_addrlen ainfo), r)
           in
           if len2 < 0 \<and> errno r = EINTR then
             (if rc = 0 \<and> len > 0 then emit [ev] (udp_buf_send_loop ctx buf len rc env)
              else Some (rc, [ev], env))
           else if len2 < 0 \<and> udp_error_is_recoverable (- errno r) then
             (case env of
                [] \<Rightarrow> None
              | w # env' \<Rightarrow>
                  (let rc' = ret w;
                       evw = (Util_select (uc_sock ctx) None (Some [uc_sock ctx]), w)
                   in
                   if rc' = 0 \<and> len > 0
                   then emit [ev, evw] (udp_buf_send_loop ctx buf len rc' env')
                   else Some (rc', [ev, evw], env')))
           else
             (let rc' = (if len2 < 0 \<and> \<not> udp_error_is_recoverable (- errno r)
                         then P_ERR (- errno r) else rc);
                  buf' = (if len2 > 0 then buf + len2 else buf);
                  len' = (if len2 > 0 then len - len2 else len)
              in
              if rc' = 0 \<and> len' > 0 then emit [ev] (udp_buf_send_loop ctx buf' len' rc' env)
              else Some (rc', [ev], env))))"

definition udp_buf_send :: "pppoat_udp_ctx \<Rightarrow> int \<Rightarrow> int \<Rightarrow> outcome list \<Rightarrow> result" where
  "udp_buf_send ctx buf len env = udp_buf_send_loop ctx buf len 0 env"

subsection \<open>The forwarding loop\<close>

text \<open>The branch of one iteration taken when the link descriptor is flagged
  (\<open>FD_ISSET(rd, &rfds)\<close>); \<open>rc\<close> is what the readiness wait left.\<close>

definition module_udp_run_link ::
  "int \<Rightarrow> pppoat_udp_ctx \<Rightarrow> int \<Rightarrow> int list \<Rightarrow> outcome list \<Rightarrow> result" where
  "module_udp_run_link rd ctx rc rfds env =
     (if rd \<in> set rfds then
        (case env of
           [] \<Rightarrow> None
         | r # env' \<Rightarrow>
             (let len = ret r;
                  ev = (Read rd 4096, r);
                  rc1 = (if len = 0 then P_ERR (- EPIPE) else rc);
                  rc2 = (if len < 0 \<and> \<not> udp_error_is_recoverable (- errno r)
                         then P_ERR (- errno r) else rc1)
              in
              if len > 0 then emit [ev] (udp_buf_send ctx 0 len env')
              else Some (rc2, [ev], env')))
      else Some (rc, [], env))"

text \<open>The branch taken when no error is recorded and the socket is flagged
  (\<open>rc == 0 && FD_ISSET(sock, &rfds)\<close>).\<close>

definition module_udp_run_sock ::
  "int \<Rightarrow> pppoat_udp_ctx \<Rightarrow> int \<Rightarrow> int list \<Rightarrow> outcome list \<Rightarrow> result" where
  "module_udp_run_sock wr ctx rc rfds env =
     (if rc = 0 \<and> uc_sock ctx \<in> set rfds then
        (case env of
           [] \<Rightarrow> None
         | r # env' \<Rightarrow>
             (let len = ret r;
                  ev = (Recv (uc_sock ctx) 4096, r);
                  rc1 = (if len < 0 \<and> \<not> udp_error_is_recoverable (- errno r)
                         then P_ERR (- errno r) else rc)
              in
              if len > 0 then
                (case env' of
                   [] \<Rightarrow> None
                 | w # env'' \<Rightarrow> Some (ret w, [ev, (Util_write wr len, w)], env''))
              else Some (rc1, [ev], env')))
      else Some (rc, [], env))"

text \<open>One pass through the body of \<open>while (rc == 0)\<close>: the readiness wait on the link
  descriptor and the socket, \<open>rc = rc > 0 ? 0 : rc\<close>, then the two branches.\<close>

definition module_udp_run_iter ::
  "int \<Rightarrow> int \<Rightarrow> int \<Rightarrow> pppoat_udp_ctx \<Rightarrow> outcome list \<Rightarrow> result" where
  "module_udp_run_iter rd wr ctrl ctx env =
     (case env of
        [] \<Rightarrow> None
      | s # env1 \<Rightarrow>
          (let sock = uc_sock ctx;
               max = pppoat_max rd sock;
               ev = (Util_select max (Some [rd, sock]) None, s);
               rc = ret s;
               rc = (if rc > 0 then 0 else rc);
               rfds = fds s
           in
           (case module_udp_run_link rd ctx rc rfds env1 of
              None \<Rightarrow> None
            | Some (rc1, evs1, env2) \<Rightarrow>
                emit (ev # evs1) (module_udp_run_sock wr ctx rc1 rfds env2))))"

lemma emit_shorter:
  "emit evs res = Some (rc, evs', env') \<Longrightarrow> \<exists>evs''. res = Some (rc, evs'', env')"
  by (auto simp: emit_def split: option.splits)

lemma udp_buf_send_loop_shorter:
  "udp_buf_send_loop ctx buf len rc env = Some (rc', evs, env') \<Longrightarrow> length env' < length env"
proof (induction ctx buf len rc env arbitrary: rc' evs rule: udp_buf_send_loop.induct)
  case (1 ctx buf len rc)
  then show ?case by simp
next
  case (2 ctx buf len rc r env)
  from "2.prems" obtain ainfo where ai: "uc_ainfo ctx = Some ainfo"
    by (auto split: option.splits)
  show ?case
  proof (cases "ret r < 0 \<and> errno r = EINTR")
    case True
    with "2.prems" ai "2.IH"(1)[OF ai refl refl True] show ?thesis
      by (fastforce simp: Let_def split: if_splits dest!: emit_shorter)
  next
    case notintr: False
    show ?thesis
    proof (cases "ret r < 0 \<and> udp_error_is_recoverable (- errno r)")
      case True
      with "2.prems" ai notintr "2.IH"(2)[OF ai refl refl notintr True] show ?thesis
        by (fastforce simp: Let_def split: if_splits list.splits dest!: emit_shorter)
    next
      case False
      with "2.prems" ai notintr "2.IH"(3)[OF ai refl refl notintr False refl refl refl]
      show ?thesis
        by (fastforce simp: Let_def split: if_splits dest!: emit_shorter)
    qed
  qed
qed

lemma module_udp_run_link_shorter:
  "module_udp_run_link rd ctx rc rfds env = Some (rc', evs, env') \<Longrightarrow>
   length env' \<le> length env"
  by (fastforce simp: module_udp_run_link_def udp_buf_send_def Let_def
      split: if_splits list.splits dest!: emit_shorter udp_buf_send_loop_shorter)

lemma module_udp_run_sock_shorter:
  "module_udp_run_sock wr ctx rc rfds env = Some (rc', evs, env') \<Longrightarrow>
   length env' \<le> length env"
  by (auto simp: module_udp_run_sock_def Let_def split: if_splits list.splits)

lemma module_udp_run_iter_shorter:
  "module_udp_run_iter rd wr ctrl ctx env = Some (rc', evs, env') \<Longrightarrow>
   length env' < length env"
  by (fastforce simp: module_udp_run_iter_def Let_def
      split: list.splits option.splits
      dest!: emit_shorter module_udp_run_link_shorter module_udp_run_sock_shorter)

text \<open>The \<open>while (rc == 0)\<close> loop: it leaves with \<open>rc\<close> as soon as \<open>rc\<close> is not zero.\<close>

function module_udp_run_loop ::
  "int \<Rightarrow> int \<Rightarrow> int \<Rightarrow> pppoat_udp_ctx \<Rightarrow> int \<Rightarrow> outcome list \<Rightarrow> result" where
  "module_udp_run_loop rd wr ctrl ctx rc env =
     (if rc \<noteq> 0 then Some (rc, [], env)
      else
        (case module_udp_run_iter rd wr ctrl ctx env of
           None \<Rightarrow> None
         | Some (rc', evs, env') \<Rightarrow> emit evs (module_udp_run_loop rd wr ctrl ctx rc' env')))"
  by pat_completeness auto
termination
  by (relation "measure (\<lambda>(rd, wr, ctrl, ctx, rc, env). length env)")
    (auto dest: module_udp_run_iter_shorter)

declare module_udp_run_loop.simps [simp del]

text \<open>\<open>module_udp_run\<close>: both descriptors are made non-blocking (the second call is
  made only when the first returned zero, \<open>a ?: b\<close>), then the loop runs.\<close>

definition module_udp_run ::
  "int \<Rightarrow> int \<Rightarrow> int \<Rightarrow> pppoat_udp_ctx \<Rightarrow> outcome list \<Rightarrow> result" where
  "module_udp_run rd wr ctrl ctx env =
     (case env of
        [] \<Rightarrow> None
      | n1 # env1 \<Rightarrow>
          (let sock = uc_sock ctx;
               ev1 = (Fd_nonblock_set rd True, n1)
           in
           if ret n1 \<noteq> 0 then emit [ev1] (module_udp_run_loop rd wr ctrl ctx (ret n1) env1)
           else
             (case env1 of
                [] \<Rightarrow> None
              | n2 # env2 \<Rightarrow>
                  emit [ev1, (Fd_nonblock_set sock True, n2)]
                    (module_udp_run_loop rd wr ctrl ctx (ret n2) env2))))"

subsection \<open>Initialisation and teardown\<close>

text \<open>
  Modelled from the spec: \<open>conf.h\<close> is not among the sources. A configuration maps a key
  to the string stored for it, \<open>pppoat_conf_get\<close> returning \<open>NULL\<close> (here \<open>None\<close>) for an
  absent key. Whether a stored string counts as true (\<open>pppoat_conf_obj_is_true\<close>) is a
  parameter \<open>is_true\<close> of the initialisation.
\<close>

type_synonym pppoat_conf = "string \<Rightarrow> string option"

definition pppoat_conf_get :: "pppoat_conf \<Rightarrow> string \<Rightarrow> string option" where
  "pppoat_conf_get conf key = conf key"

text \<open>
  What the environment answers during initialisation: \<open>pppoat_alloc\<close> gives \<open>NULL\<close> or
  a fresh context with arbitrary contents; each \<open>getaddrinfo\<close> gives its return code and
  whatever it left in the result pointer; \<open>socket\<close> and \<open>bind\<close> give their return value
  and the \<open>errno\<close> they left.
\<close>

record init_env =
  ie_alloc :: "pppoat_udp_ctx option"
  ie_gai_remote :: "int \<times> addrinfo option"
  ie_gai_local :: "int \<times> addrinfo option"
  ie_socket :: "int \<times> int"
  ie_bind :: "int \<times> int"

text \<open>The calls of the initialisation side. \<open>Getaddrinfo host port passive\<close> is the
  lookup of \<open>host\<close> with the decimal rendering of \<open>port\<close> as service, \<open>passive\<close> telling
  whether \<open>AI_PASSIVE\<close> is among the hints; \<open>Alloc\<close> and \<open>Free\<close> are \<open>pppoat_alloc\<close> and
  \<open>pppoat_free\<close> of the context.\<close>

datatype init_call =
    Alloc
  | Getaddrinfo "string option" "16 word" bool
  | Socket int int int
  | Bind int nat nat
  | Close int
  | Freeaddrinfo "addrinfo option"
  | Free

text \<open>\<open>udp_ainfo_get\<close> returns its return code and what it leaves in \<open>*ainfo\<close>.\<close>

definition udp_ainfo_get ::
  "string option \<Rightarrow> 16 word \<Rightarrow> int \<times> addrinfo option \<Rightarrow>
   int \<times> addrinfo option \<times> init_call list" where
  "udp_ainfo_get host port gai =
     (let ev = Getaddrinfo host port (host = None);
          rc = fst gai;
          ainfo = snd gai
      in
      if rc \<noteq> 0 then (P_ERR (- ENOPROTOOPT), None, [ev]) else (rc, ainfo, [ev]))"

definition udp_ainfo_put :: "addrinfo option \<Rightarrow> init_call list" where
  "udp_ainfo_put ainfo = [Freeaddrinfo ainfo]"

text \<open>\<open>udp_sock_new port sock env\<close>, where \<open>sock\<close> is what \<open>*sock\<close> holds at the call;
  the result is the return code, what \<open>*sock\<close> holds afterwards, and the calls made.
  Reading \<open>ainfo->ai_family\<close> through a null pointer gives no result.\<close>

definition udp_sock_new ::
  "16 word \<Rightarrow> int \<Rightarrow> init_env \<Rightarrow> (int \<times> int \<times> init_call list) option" where
  "udp_sock_new port sock env =
     (case udp_ainfo_get None port (ie_gai_local env) of
        (rc, ainfo, evs0) \<Rightarrow>
          (case (if rc = 0 then
                   (case ainfo of
                      None \<Rightarrow> None
                    | Some ai \<Rightarrow>
                        (let s = fst (ie_socket env) in
                         Some (if s < 0 then P_ERR (- snd (ie_socket env)) else 0, s,
                               [Socket (ai_family ai) (ai_socktype ai) (ai_protocol ai)])))
                 else Some (rc, sock, [])) of
             None \<Rightarrow> None
           | Some (rc1, sock1, evs1) \<Rightarrow>
               (case (if rc1 = 0 then
                        (case ainfo of
                           None \<Rightarrow> None
                         | Some ai \<Rightarrow>
                             (let b = fst (ie_bind env);
                                  rc2 = (if b \<noteq> 0 then P_ERR (- snd (ie_bind env)) else 0)
                              in
                              Some (rc2, Bind sock1 (ai_addr ai) (ai_addrlen ai) #
                                         (if rc2 \<noteq> 0 then [Close sock1] else []))))
                      else Some (rc1, [])) of
                  None \<Rightarrow> None
                | Some (rc2, evs2) \<Rightarrow>
                    Some (rc2, sock1,
                          evs0 @ evs1 @ evs2 @
                          (if ainfo \<noteq> None then udp_ainfo_put ainfo else [])))))"

text \<open>\<open>module_udp_init\<close> returns its return code, the context stored in \<open>*userdata\<close>
  (\<open>None\<close> when nothing is stored) and the calls made.\<close>

definition module_udp_init ::
  "(string \<Rightarrow> bool) \<Rightarrow> pppoat_conf \<Rightarrow> init_env \<Rightarrow>
   (int \<times> pppoat_udp_ctx option \<times> init_call list) option" where
  "module_udp_init is_true conf env =
     (let opt = pppoat_conf_get conf ''server'';
          type = (case opt of
                    None \<Rightarrow> PPPOAT_NODE_SLAVE
                  | Some v \<Rightarrow> if is_true v then PPPOAT_NODE_MASTER else PPPOAT_NODE_SLAVE);
          sport = (if type = PPPOAT_NODE_MASTER then UDP_PORT_MASTER else UDP_PORT_SLAVE);
          dport = (if type = PPPOAT_NODE_MASTER then UDP_PORT_SLAVE else UDP_PORT_MASTER);
          dhost = (if type = PPPOAT_NODE_MASTER then UDP_HOST_SLAVE else UDP_HOST_MASTER)
      in
      (case ie_alloc env of
         None \<Rightarrow> Some (P_ERR (- ENOMEM), None, [Alloc])
       | Some ctx0 \<Rightarrow>
           (case udp_ainfo_get (Some dhost) dport (ie_gai_remote env) of
              (rc, ainfo, evs1) \<Rightarrow>
                (let ctx1 = ctx0\<lparr>uc_type := type, uc_ainfo := ainfo\<rparr> in
                 (case (if rc \<noteq> 0 then Some (rc, uc_sock ctx1, [])
                        else udp_sock_new sport (uc_sock ctx1) env) of
                    None \<Rightarrow> None
                  | Some (rc', sock, evs2) \<Rightarrow>
                      (let ctx2 = ctx1\<lparr>uc_sock := sock\<rparr> in
                       if rc' \<noteq> 0 then
                         Some (rc', None,
                               Alloc # evs1 @ evs2 @
                               (if uc_ainfo ctx2 \<noteq> None then udp_ainfo_put (uc_ainfo ctx2)
                                else []) @ [Free])
                       else Some (rc', Some ctx2, Alloc # evs1 @ evs2)))))))"

text \<open>\<open>module_udp_fini\<close> closes the socket, releases the remote address list and
  frees the context.\<close>

definition module_udp_fini :: "pppoat_udp_ctx \<Rightarrow> init_call list" where
  "module_udp_fini ctx = Close (uc_sock ctx) # udp_ainfo_put (uc_ainfo ctx) @ [Free]"

text \<open>What a list of calls acquires and releases: the address lists handed to
  \<open>freeaddrinfo\<close>, the descriptors handed to \<open>close\<close>, and the number of \<open>socket\<close>
  calls.\<close>

fun freed_ainfos :: "init_call list \<Rightarrow> addrinfo option list" where
  "freed_ainfos [] = []"
| "freed_ainfos (Freeaddrinfo a # es) = a # freed_ainfos es"
| "freed_ainfos (e # es) = freed_ainfos es"

fun closed_socks :: "init_call list \<Rightarrow> int list" where
  "closed_socks [] = []"
| "closed_socks (Close s # es) = s # closed_socks es"
| "closed_socks (e # es) = closed_socks es"

fun opened_socks :: "init_call list \<Rightarrow> nat" where
  "opened_socks [] = 0"
| "opened_socks (Socket f t p # es) = Suc (opened_socks es)"
| "opened_socks (e # es) = opened_socks es"

subsection \<open>Reading a list of events\<close>

text \<open>The lengths the successful \<open>sendto\<close> calls reported, in order.\<close>

fun sent_lengths :: "event list \<Rightarrow> int list" where
  "sent_lengths [] = []"
| "sent_lengths ((Sendto s b l a al, r) # es) =
     (if ret r > 0 then ret r # sent_lengths es else sent_lengths es)"
| "sent_lengths (e # es) = sent_lengths es"

text \<open>No \<open>sendto\<close> reported more bytes than it was asked to send (what the system call
  promises).\<close>

fun sends_within :: "event list \<Rightarrow> bool" where
  "sends_within [] = True"
| "sends_within ((Sendto s b l a al, r) # es) = (ret r \<le> l \<and> sends_within es)"
| "sends_within (e # es) = sends_within es"

text \<open>Every \<open>sendto\<close> starts at offset \<open>b\<close> of the buffer, where the bytes sent so far
  end.\<close>

fun sends_in_order :: "int \<Rightarrow> event list \<Rightarrow> bool" where
  "sends_in_order b [] = True"
| "sends_in_order b ((Sendto s b' l a al, r) # es) =
     (b' = b \<and> sends_in_order (if ret r > 0 then b + ret r else b) es)"
| "sends_in_order b (e # es) = sends_in_order b es"

text \<open>Every \<open>sendto\<close> goes out on socket \<open>sock\<close> to the address \<open>addr\<close>.\<close>

fun sends_to :: "int \<Rightarrow> nat \<Rightarrow> nat \<Rightarrow> event list \<Rightarrow> bool" where
  "sends_to sock addr addrlen [] = True"
| "sends_to sock addr addrlen ((Sendto s b l a al, r) # es) =
     (s = sock \<and> a = addr \<and> al = addrlen \<and> sends_to sock addr addrlen es)"
| "sends_to sock addr addrlen (e # es) = sends_to sock addr addrlen es"

text \<open>What was handed to \<open>pppoat_util_write\<close>: descriptor and length.\<close>

fun link_writes :: "event list \<Rightarrow> (int \<times> int) list" where
  "link_writes [] = []"
| "link_writes ((Util_write fd l, w) # es) = (fd, l) # link_writes es"
| "link_writes (e # es) = link_writes es"

subsection \<open>Sample values\<close>

text \<open>A context on socket 6, and outcomes: a call that returned \<open>n\<close>, a call that failed
  with \<open>errno = e\<close>, a readiness wait that returned \<open>n\<close> with the descriptors \<open>fs\<close>
  flagged.\<close>

definition ctx_ex :: pppoat_udp_ctx where
  "ctx_ex = \<lparr>uc_type = PPPOAT_NODE_SLAVE,
     uc_ainfo = Some \<lparr>ai_family = 2, ai_socktype = 2, ai_protocol = 17,
                       ai_addr = 1, ai_addrlen = 16\<rparr>,
     uc_sock = 6\<rparr>"

definition returned :: "int \<Rightarrow> outcome" where
  "returned n = \<lparr>ret = n, errno = 0, fds = []\<rparr>"

definition failed :: "int \<Rightarrow> outcome" where
  "failed e = \<lparr>ret = - 1, errno = e, fds = []\<rparr>"

definition selected :: "int \<Rightarrow> int list \<Rightarrow> outcome" where
  "selected n fs = \<lparr>ret = n, errno = 0, fds = fs\<rparr>"

text \<open>An environment in which initialisation succeeds with socket 6, and a reading of
  configuration strings as booleans.\<close>

definition init_env_ex :: init_env where
  "init_env_ex = \<lparr>
     ie_alloc = Some \<lparr>uc_type = PPPOAT_NODE_SLAVE, uc_ainfo = None, uc_sock = 0\<rparr>,
     ie_gai_remote = (0, Some \<lparr>ai_family = 2, ai_socktype = 2, ai_protocol = 17,
                               ai_addr = 1, ai_addrlen = 16\<rparr>),
     ie_gai_local = (0, Some \<lparr>ai_family = 2, ai_socktype = 2, ai_protocol = 17,
                              ai_addr = 2, ai_addrlen = 16\<rparr>),
     ie_socket = (6, 0),
     ie_bind = (0, 0)\<rparr>"

definition is_true_ex :: "string \<Rightarrow> bool" where
  "is_true_ex v = (v = ''1'' \<or> v = ''true'')"

lemmas ex_defs = ctx_ex_def returned_def failed_def selected_def

lemmas c_defs = EINTR_def EAGAIN_def EWOULDBLOCK_def EPIPE_def ENOMEM_def ENOPROTOOPT_def
  P_ERR_def udp_error_is_recoverable_def pppoat_max_def

lemmas run_defs = module_udp_run_def module_udp_run_loop.simps module_udp_run_iter_def
  module_udp_run_link_def module_udp_run_sock_def udp_buf_send_def emit_def Let_def

lemmas init_defs = module_udp_init_def udp_sock_new_def udp_ainfo_get_def udp_ainfo_put_def
  pppoat_conf_get_def UDP_PORT_MASTER_def UDP_PORT_SLAVE_def UDP_HOST_MASTER_def
  UDP_HOST_SLAVE_def Let_def

section \<open>Properties\<close>

subsection \<open>The send loop\<close>

lemma emit_Some:
  "emit evs res = Some (rc, evs', env') \<longleftrightarrow>
   (\<exists>evs''. res = Some (rc, evs'', env') \<and> evs' = evs @ evs'')"
  by (auto simp: emit_def split: option.splits)

text \<open>The invariant of the send loop: entered with no error and bytes left, it leaves
  with \<open>rc = 0\<close> only when the positive results of \<open>sendto\<close> add up to \<open>len\<close>.\<close>

lemma udp_buf_send_loop_all:
  "udp_buf_send_loop ctx buf len rc env = Some (rc', evs, env') \<Longrightarrow>
   sends_within evs \<Longrightarrow> rc = 0 \<Longrightarrow> 0 < len \<Longrightarrow> rc' = 0 \<Longrightarrow>
   sum_list (sent_lengths evs) = len \<and> sends_in_order buf evs"
proof (induction ctx buf len rc env arbitrary: rc' evs rule: udp_buf_send_loop.induct)
  case (1 ctx buf len rc)
  then show ?case by simp
next
  case (2 ctx buf len rc r env)
  from "2.prems" obtain ainfo where ai: "uc_ainfo ctx = Some ainfo"
    by (auto split: option.splits)
  show ?case
  proof (cases "ret r < 0 \<and> errno r = EINTR")
    case True
    with "2.prems" ai "2.IH"(1)[OF ai refl refl True] show ?thesis
      by (auto simp: Let_def emit_Some split: if_splits)
  next
    case notintr: False
    show ?thesis
    proof (cases "ret r < 0 \<and> udp_error_is_recoverable (- errno r)")
      case True
      with "2.prems" ai notintr "2.IH"(2)[OF ai refl refl notintr True] show ?thesis
        by (auto simp: Let_def emit_Some split: if_splits list.splits)
    next
      case False
      with "2.prems" ai notintr "2.IH"(3)[OF ai refl refl notintr False refl refl refl]
      show ?thesis
        by (auto simp: Let_def emit_Some split: if_splits)
    qed
  qed
qed

lemma udp_buf_send_loop_dest:
  "udp_buf_send_loop ctx buf len rc env = Some (rc', evs, env') \<Longrightarrow>
   \<exists>ai. uc_ainfo ctx = Some ai \<and> sends_to (uc_sock ctx) (ai_addr ai) (ai_addrlen ai) evs"
proof (induction ctx buf len rc env arbitrary: rc' evs rule: udp_buf_send_loop.induct)
  case (1 ctx buf len rc)
  then show ?case by simp
next
  case (2 ctx buf len rc r env)
  from "2.prems" obtain ainfo where ai: "uc_ainfo ctx = Some ainfo"
    by (auto split: option.splits)
  show ?case
  proof (cases "ret r < 0 \<and> errno r = EINTR")
    case True
    with "2.prems" ai "2.IH"(1)[OF ai refl refl True] show ?thesis
      by (auto simp: Let_def emit_Some split: if_splits)
  next
    case notintr: False
    show ?thesis
    proof (cases "ret r < 0 \<and> udp_error_is_recoverable (- errno r)")
      case True
      with "2.prems" ai notintr "2.IH"(2)[OF ai refl refl notintr True] show ?thesis
        by (auto simp: Let_def emit_Some split: if_splits list.splits)
    next
      case False
      with "2.prems" ai notintr "2.IH"(3)[OF ai refl refl notintr False refl refl refl]
      show ?thesis
        by (auto simp: Let_def emit_Some split: if_splits)
    qed
  qed
qed

lemma udp_buf_send_loop_calls:
  "udp_buf_send_loop ctx buf len rc env = Some (rc', evs, env') \<Longrightarrow> (c, x) \<in> set evs \<Longrightarrow>
   (\<exists>b l a al. c = Sendto (uc_sock ctx) b l a al) \<or>
   c = Util_select (uc_sock ctx) None (Some [uc_sock ctx])"
proof (induction ctx buf len rc env arbitrary: rc' evs rule: udp_buf_send_loop.induct)
  case (1 ctx buf len rc)
  then show ?case by simp
next
  case (2 ctx buf len rc r env)
  from "2.prems" obtain ainfo where ai: "uc_ainfo ctx = Some ainfo"
    by (auto split: option.splits)
  show ?case
  proof (cases "ret r < 0 \<and> errno r = EINTR")
    case True
    with "2.prems" ai "2.IH"(1)[OF ai refl refl True] show ?thesis
      by (auto simp: Let_def emit_Some split: if_splits)
  next
    case notintr: False
    show ?thesis
    proof (cases "ret r < 0 \<and> udp_error_is_recoverable (- errno r)")
      case True
      with "2.prems" ai notintr "2.IH"(2)[OF ai refl refl notintr True] show ?thesis
        by (auto simp: Let_def emit_Some split: if_splits list.splits)
    next
      case False
      with "2.prems" ai notintr "2.IH"(3)[OF ai refl refl notintr False refl refl refl]
      show ?thesis
        by (auto simp: Let_def emit_Some split: if_splits)
    qed
  qed
qed

text \<open>What the send loop does with a transient failure of \<open>sendto\<close>: after \<open>EINTR\<close> the
  same send is made again at once; after \<open>EAGAIN\<close> or \<open>EWOULDBLOCK\<close> the code waits for
  the socket to be writable, and makes the same send again when the wait returned zero.
  Whatever else the wait returned leaves the loop and is the return value.\<close>

lemma udp_buf_send_loop_interrupted:
  assumes "uc_ainfo ctx = Some ai" and "ret r < 0" and "errno r = EINTR" and "0 < len"
  shows "udp_buf_send_loop ctx buf len 0 (r # env) =
    emit [(Sendto (uc_sock ctx) buf len (ai_addr ai) (ai_addrlen ai), r)]
      (udp_buf_send_loop ctx buf len 0 env)"
  using assms by (simp add: Let_def)

lemma udp_buf_send_loop_would_block:
  assumes "uc_ainfo ctx = Some ai" and "ret r < 0" and "errno r \<noteq> EINTR"
    and "errno r = EAGAIN \<or> errno r = EWOULDBLOCK"
  shows "udp_buf_send_loop ctx buf len 0 (r # w # env) =
    (if ret w = 0 \<and> 0 < len then
       emit [(Sendto (uc_sock ctx) buf len (ai_addr ai) (ai_addrlen ai), r),
             (Util_select (uc_sock ctx) None (Some [uc_sock ctx]), w)]
         (udp_buf_send_loop ctx buf len 0 env)
     else
       Some (ret w,
         [(Sendto (uc_sock ctx) buf len (ai_addr ai) (ai_addrlen ai), r),
          (Util_select (uc_sock ctx) None (Some [uc_sock ctx]), w)], env))"
  using assms by (auto simp: Let_def udp_error_is_recoverable_def)

text \<open>
  C1. For a buffer of 1 to 65507 bytes and any script of outcomes (failures with
  \<open>EAGAIN\<close>, \<open>EWOULDBLOCK\<close>, \<open>EINTR\<close> or anything else, short sends, waits), when
  \<open>udp_buf_send\<close> returns zero and no \<open>sendto\<close> reported more bytes than it was given,
  the lengths of the successful \<open>sendto\<close> calls add up to exactly the length of the
  buffer; each call started where the bytes sent before it end, and each went out on the
  context's socket to the context's remote address.
\<close>

theorem udp_buf_send_sends_whole_buffer:
  assumes "1 \<le> len" and "len \<le> 65507"
    and "udp_buf_send ctx buf len env = Some (0, evs, env')"
    and "sends_within evs"
  shows "sum_list (sent_lengths evs) = len \<and> sends_in_order buf evs \<and>
    (\<exists>ai. uc_ainfo ctx = Some ai \<and> sends_to (uc_sock ctx) (ai_addr ai) (ai_addrlen ai) evs)"
  using assms udp_buf_send_loop_all[of ctx buf len 0 env 0 evs env']
    udp_buf_send_loop_dest[of ctx buf len 0 env 0 evs env']
  by (simp add: udp_buf_send_def)

text \<open>A run of the send loop on five bytes: interrupted, then would-block and a wait,
  then three bytes, a send of nothing, and the last two bytes.\<close>

theorem udp_buf_send_sends_whole_buffer_witness:
  "udp_buf_send ctx_ex 0 5
     [failed EINTR, failed EAGAIN, returned 0, returned 3, returned 0, returned 2] =
   Some (0,
     [(Sendto 6 0 5 1 16, failed EINTR), (Sendto 6 0 5 1 16, failed EAGAIN),
      (Util_select 6 None (Some [6]), returned 0), (Sendto 6 0 5 1 16, returned 3),
      (Sendto 6 3 2 1 16, returned 0), (Sendto 6 3 2 1 16, returned 2)], []) \<and>
   sum_list (sent_lengths
     [(Sendto 6 0 5 1 16, failed EINTR), (Sendto 6 0 5 1 16, failed EAGAIN),
      (Util_select 6 None (Some [6]), returned 0), (Sendto 6 0 5 1 16, returned 3),
      (Sendto 6 3 2 1 16, returned 0), (Sendto 6 3 2 1 16, returned 2)]) = 5"
proof -
  let ?evs = "[(Sendto 6 0 5 1 16, failed EINTR), (Sendto 6 0 5 1 16, failed EAGAIN),
      (Util_select 6 None (Some [6]), returned 0), (Sendto 6 0 5 1 16, returned 3),
      (Sendto 6 3 2 1 16, returned 0), (Sendto 6 3 2 1 16, returned 2)]"
  have run: "udp_buf_send ctx_ex 0 5
     [failed EINTR, failed EAGAIN, returned 0, returned 3, returned 0, returned 2] =
     Some (0, ?evs, [])"
    by (simp add: udp_buf_send_def ex_defs c_defs emit_def Let_def)
  have within: "sends_within ?evs"
    by (simp add: ex_defs)
  from udp_buf_send_sends_whole_buffer[OF _ _ run within] run show ?thesis
    by simp
qed

subsection \<open>The forwarding loop\<close>

lemma module_udp_run_loop_nonzero:
  "module_udp_run_loop rd wr ctrl ctx rc env = Some (rc', evs, env') \<Longrightarrow> rc' \<noteq> 0"
proof (induction rd wr ctrl ctx rc env arbitrary: rc' evs env' rule: module_udp_run_loop.induct)
  case (1 rd wr ctrl ctx rc env)
  show ?case
  proof (cases "rc = 0")
    case False
    with "1.prems" show ?thesis by (simp add: module_udp_run_loop.simps)
  next
    case True
    with "1.prems" obtain rc1 evs1 env1 evs2 where
      it: "module_udp_run_iter rd wr ctrl ctx env = Some (rc1, evs1, env1)" and
      rest: "module_udp_run_loop rd wr ctrl ctx rc1 env1 = Some (rc', evs2, env')"
      by (auto simp: module_udp_run_loop.simps[of rd wr ctrl ctx 0 env] emit_Some
          split: option.splits)
    from "1.IH"[OF _ it refl refl rest] True show ?thesis by simp
  qed
qed

lemma module_udp_run_loop_ctrl:
  "module_udp_run_loop rd wr c1 ctx rc env = module_udp_run_loop rd wr c2 ctx rc env"
proof (induction rd wr c1 ctx rc env rule: module_udp_run_loop.induct)
  case (1 rd wr c1 ctx rc env)
  have it: "module_udp_run_iter rd wr c2 ctx env = module_udp_run_iter rd wr c1 ctx env"
    by (simp add: module_udp_run_iter_def)
  show ?case
  proof (cases "rc = 0")
    case False
    then show ?thesis by (simp add: module_udp_run_loop.simps)
  next
    case True
    show ?thesis
    proof (cases "module_udp_run_iter rd wr c1 ctx env")
      case None
      with True it show ?thesis by (simp add: module_udp_run_loop.simps)
    next
      case (Some t)
      obtain rc1 evs1 env1 where t: "t = (rc1, evs1, env1)" by (cases t)
      from "1.IH"[OF _ Some[unfolded t] refl refl] True
      have "module_udp_run_loop rd wr c1 ctx rc1 env1 = module_udp_run_loop rd wr c2 ctx rc1 env1"
        by simp
      with True it Some t show ?thesis
        by (simp add: module_udp_run_loop.simps[of rd wr c1 ctx 0 env]
            module_udp_run_loop.simps[of rd wr c2 ctx 0 env])
    qed
  qed
qed

lemma module_udp_run_loop_enters:
  "module_udp_run_loop rd wr ctrl ctx 0 env \<noteq> Some (rc, [], env')"
  by (auto simp: module_udp_run_loop.simps[of rd wr ctrl ctx 0 env] module_udp_run_iter_def
      Let_def emit_Some split: option.splits list.splits)

lemma link_writes_append: "link_writes (xs @ ys) = link_writes xs @ link_writes ys"
  by (induction xs rule: link_writes.induct) auto

lemma link_writes_none:
  "(\<And>c x. (c, x) \<in> set evs \<Longrightarrow> \<forall>fd l. c \<noteq> Util_write fd l) \<Longrightarrow> link_writes evs = []"
  by (induction evs rule: link_writes.induct) auto

lemma module_udp_run_link_calls:
  assumes "module_udp_run_link rd ctx rc rfds env = Some (rc', evs, env')"
    and "(c, x) \<in> set evs"
  shows "(\<forall>sk n. c \<noteq> Recv sk n) \<and> (\<forall>fd l. c \<noteq> Util_write fd l)"
  using assms
  by (auto simp: module_udp_run_link_def udp_buf_send_def Let_def emit_Some
      split: if_splits list.splits dest: udp_buf_send_loop_calls)

text \<open>A transient failure of \<open>recv\<close> leaves \<open>rc\<close> at zero.\<close>

lemma module_udp_run_sock_transient:
  assumes "uc_sock ctx \<in> set rfds" and "ret r < 0"
    and "errno r = EAGAIN \<or> errno r = EWOULDBLOCK \<or> errno r = EINTR"
  shows "module_udp_run_sock wr ctx 0 rfds (r # env) =
    Some (0, [(Recv (uc_sock ctx) 4096, r)], env)"
  using assms by (auto simp: module_udp_run_sock_def Let_def udp_error_is_recoverable_def)

text \<open>An error of the readiness wait is what the loop returns when the wait did not
  leave the link descriptor flagged.\<close>

lemma module_udp_run_loop_select_error:
  assumes "ret s < 0" and "rd \<notin> set (fds s)"
  shows "module_udp_run_loop rd wr ctrl ctx 0 (s # env) =
    Some (ret s,
      [(Util_select (pppoat_max rd (uc_sock ctx)) (Some [rd, uc_sock ctx]) None, s)], env)"
  using assms
  by (simp add: module_udp_run_loop.simps module_udp_run_iter_def module_udp_run_link_def
      module_udp_run_sock_def Let_def emit_def)

text \<open>Over whole runs: a read of zero bytes anywhere among the calls of a run that
  returned is the last call of that run, and the run returned \<open>-EPIPE\<close>.\<close>

lemma module_udp_run_iter_zero_read:
  assumes "module_udp_run_iter rd wr ctrl ctx env = Some (rc, evs, env')"
    and "(Read fd n, r) \<in> set evs" and "ret r = 0"
  shows "rc = - EPIPE \<and> last evs = (Read fd n, r)"
proof -
  from assms(1) obtain s env1 rc1 evs1 env2 evs2 where
    link: "module_udp_run_link rd ctx (if ret s > 0 then 0 else ret s) (fds s) env1 =
      Some (rc1, evs1, env2)" and
    sock: "module_udp_run_sock wr ctx rc1 (fds s) env2 = Some (rc, evs2, env')" and
    evs: "evs = (Util_select (pppoat_max rd (uc_sock ctx)) (Some [rd, uc_sock ctx]) None, s)
      # evs1 @ evs2"
    by (auto simp: module_udp_run_iter_def Let_def emit_Some split: list.splits option.splits)
  from sock have "(Read fd n, r) \<notin> set evs2"
    by (auto simp: module_udp_run_sock_def Let_def split: if_splits list.splits)
  with assms(2) evs have in1: "(Read fd n, r) \<in> set evs1" by auto
  with link assms(3) have rc1: "rc1 = - EPIPE" and evs1: "evs1 = [(Read fd n, r)]"
    by (auto simp: module_udp_run_link_def udp_buf_send_def Let_def emit_Some P_ERR_def
        split: if_splits list.splits dest: udp_buf_send_loop_calls)
  from sock rc1 have "rc = - EPIPE" and "evs2 = []"
    by (auto simp: module_udp_run_sock_def EPIPE_def)
  with evs evs1 show ?thesis by simp
qed

lemma module_udp_run_loop_zero_read:
  "module_udp_run_loop rd wr ctrl ctx rc0 env = Some (rc, evs, env') \<Longrightarrow>
   (Read fd n, r) \<in> set evs \<Longrightarrow> ret r = 0 \<Longrightarrow>
   rc = - EPIPE \<and> last evs = (Read fd n, r)"
proof (induction rd wr ctrl ctx rc0 env arbitrary: rc evs env' rule: module_udp_run_loop.induct)
  case (1 rd wr ctrl ctx rc0 env)
  show ?case
  proof (cases "rc0 = 0")
    case False
    with "1.prems" show ?thesis by (simp add: module_udp_run_loop.simps)
  next
    case True
    with "1.prems"(1) obtain rc1 evs1 env1 evs2 where
      it: "module_udp_run_iter rd wr ctrl ctx env = Some (rc1, evs1, env1)" and
      rest: "module_udp_run_loop rd wr ctrl ctx rc1 env1 = Some (rc, evs2, env')" and
      evs: "evs = evs1 @ evs2"
      by (auto simp: module_udp_run_loop.simps[of rd wr ctrl ctx 0 env] emit_Some
          split: option.splits)
    show ?thesis
    proof (cases "(Read fd n, r) \<in> set evs1")
      case in1: True
      from module_udp_run_iter_zero_read[OF it in1 "1.prems"(3)]
      have rc1: "rc1 = - EPIPE" and l: "last evs1 = (Read fd n, r)" by simp_all
      from rest rc1 have "rc = - EPIPE" and "evs2 = []"
        by (simp_all add: module_udp_run_loop.simps EPIPE_def)
      with evs l show ?thesis by simp
    next
      case False
      with "1.prems"(2) evs have in2: "(Read fd n, r) \<in> set evs2" by auto
      from "1.IH"[OF _ it refl refl rest in2 "1.prems"(3)] True
      have "rc = - EPIPE" and "last evs2 = (Read fd n, r)" by simp_all
      moreover from in2 have "evs2 \<noteq> []" by auto
      ultimately show ?thesis using evs by simp
    qed
  qed
qed

lemma module_udp_run_zero_read:
  assumes "module_udp_run rd wr ctrl ctx env = Some (rc, evs, env')"
    and "(Read fd n, r) \<in> set evs" and "ret r = 0"
  shows "rc = - EPIPE \<and> last evs = (Read fd n, r)"
proof -
  from assms(1) consider
    (first) n1 env1 evs2 where
      "module_udp_run_loop rd wr ctrl ctx (ret n1) env1 = Some (rc, evs2, env')"
      "evs = (Fd_nonblock_set rd True, n1) # evs2"
  | (both) n1 n2 env2 evs2 where
      "module_udp_run_loop rd wr ctrl ctx (ret n2) env2 = Some (rc, evs2, env')"
      "evs = (Fd_nonblock_set rd True, n1) # (Fd_nonblock_set (uc_sock ctx) True, n2) # evs2"
    by (auto simp: module_udp_run_def Let_def emit_Some split: list.splits if_splits)
  then show ?thesis
  proof cases
    case first
    with assms(2) have in2: "(Read fd n, r) \<in> set evs2" by auto
    from module_udp_run_loop_zero_read[OF first(1) in2 assms(3)] in2 first(2) show ?thesis
      by auto
  next
    case both
    with assms(2) have in2: "(Read fd n, r) \<in> set evs2" by auto
    from module_udp_run_loop_zero_read[OF both(1) in2 assms(3)] in2 both(2) show ?thesis
      by auto
  qed
qed

text \<open>
  C3. In any iteration of the loop (the loop is entered with \<open>rc = 0\<close> and whatever is
  left of the script), when the readiness wait \<open>s\<close> flags the link descriptor and the
  read \<open>r\<close> returns zero, \<open>module_udp_run\<close>'s loop returns \<open>-EPIPE\<close>: the wait and the read
  are the only calls made, so the socket is not read in that iteration and the loop is
  not entered again. (Lemma \<open>module_udp_run_zero_read\<close> above is the same fact read off
  the calls of a whole run.)
\<close>

theorem zero_read_ends_run:
  assumes "rd \<in> set (fds s)" and "ret r = 0"
  shows "module_udp_run_loop rd wr ctrl ctx 0 (s # r # env) =
    Some (- EPIPE,
      [(Util_select (pppoat_max rd (uc_sock ctx)) (Some [rd, uc_sock ctx]) None, s),
       (Read rd 4096, r)], env)"
  using assms
  by (simp add: module_udp_run_loop.simps module_udp_run_iter_def module_udp_run_link_def
      module_udp_run_sock_def Let_def emit_def P_ERR_def EPIPE_def)

theorem zero_read_ends_run_witness:
  "3 \<in> set (fds (selected 2 [3, 6])) \<and> ret (returned 0) = 0 \<and>
   module_udp_run_loop 3 4 5 ctx_ex 0 [selected 2 [3, 6], returned 0, returned 7] =
     Some (- 32,
       [(Util_select 6 (Some [3, 6]) None, selected 2 [3, 6]), (Read 3 4096, returned 0)],
       [returned 7])"
  using zero_read_ends_run[of 3 "selected 2 [3, 6]" "returned 0" 4 5 ctx_ex "[returned 7]"]
  by (simp add: ex_defs c_defs)

text \<open>
  C7. Whenever \<open>module_udp_run\<close> returns, what it returns is not zero.
\<close>

theorem module_udp_run_never_returns_success:
  "module_udp_run rd wr ctrl ctx env = Some (rc, evs, env') \<Longrightarrow> rc \<noteq> 0"
  by (auto simp: module_udp_run_def Let_def emit_Some split: list.splits if_splits
      dest: module_udp_run_loop_nonzero)

theorem module_udp_run_never_returns_success_witness:
  "module_udp_run 3 4 5 ctx_ex [returned 0, returned 0, selected (- 9) []] =
     Some (- 9,
       [(Fd_nonblock_set 3 True, returned 0), (Fd_nonblock_set 6 True, returned 0),
        (Util_select 6 (Some [3, 6]) None, selected (- 9) [])], []) \<and>
   (- 9 :: int) \<noteq> 0"
proof -
  have run: "module_udp_run 3 4 5 ctx_ex [returned 0, returned 0, selected (- 9) []] =
     Some (- 9,
       [(Fd_nonblock_set 3 True, returned 0), (Fd_nonblock_set 6 True, returned 0),
        (Util_select 6 (Some [3, 6]) None, selected (- 9) [])], [])"
    by (simp add: module_udp_run_def module_udp_run_loop.simps module_udp_run_iter_def
        module_udp_run_link_def module_udp_run_sock_def Let_def emit_def ex_defs c_defs)
  from module_udp_run_never_returns_success[OF run] run show ?thesis
    by simp
qed

text \<open>
  C8. Two runs that differ only in the control descriptor make the same calls in the
  same order, get the same return value and leave the same part of the script unread.
\<close>

theorem module_udp_run_ignores_ctrl:
  "module_udp_run rd wr c1 ctx env = module_udp_run rd wr c2 ctx env"
  by (simp add: module_udp_run_def Let_def module_udp_run_loop_ctrl[of rd wr c1 ctx _ _ c2]
      split: list.splits)

text \<open>
  C9. In any iteration of the loop in which \<open>recv\<close> returned zero, the iteration ends
  with \<open>rc = 0\<close>, nothing is handed to \<open>pppoat_util_write\<close> in it, and the loop goes on:
  it enters its next iteration on the rest of the script, and does not return before it
  has made a further call.
\<close>

theorem zero_recv_is_ignored:
  assumes "module_udp_run_iter rd wr ctrl ctx env = Some (rc, evs, env')"
    and "(Recv sk n, r) \<in> set evs" and "ret r = 0"
  shows "rc = 0 \<and> link_writes evs = [] \<and>
    module_udp_run_loop rd wr ctrl ctx 0 env =
      emit evs (module_udp_run_loop rd wr ctrl ctx 0 env') \<and>
    (\<forall>x e. module_udp_run_loop rd wr ctrl ctx 0 env' \<noteq> Some (x, [], e))"
proof -
  from assms(1) obtain s env1 rc1 evs1 env2 evs2 where
    env: "env = s # env1" and
    link: "module_udp_run_link rd ctx (if ret s > 0 then 0 else ret s) (fds s) env1 =
      Some (rc1, evs1, env2)" and
    sock: "module_udp_run_sock wr ctx rc1 (fds s) env2 = Some (rc, evs2, env')" and
    evs: "evs = (Util_select (pppoat_max rd (uc_sock ctx)) (Some [rd, uc_sock ctx]) None, s)
      # evs1 @ evs2"
    by (auto simp: module_udp_run_iter_def Let_def emit_Some split: list.splits option.splits)
  have no1: "(Recv sk n, r) \<notin> set evs1"
    using module_udp_run_link_calls[OF link] by blast
  with assms(2) evs have in2: "(Recv sk n, r) \<in> set evs2" by auto
  with sock assms(3) have rc: "rc = 0" and evs2: "evs2 = [(Recv (uc_sock ctx) 4096, r)]"
    by (auto simp: module_udp_run_sock_def Let_def split: if_splits list.splits)
  have w1: "link_writes evs1 = []"
    using module_udp_run_link_calls[OF link] by (intro link_writes_none) blast
  have "link_writes evs = []"
    using w1 evs evs2 by (simp add: link_writes_append)
  moreover have "module_udp_run_loop rd wr ctrl ctx 0 env =
      emit evs (module_udp_run_loop rd wr ctrl ctx 0 env')"
    using assms(1) rc by (simp add: module_udp_run_loop.simps[of rd wr ctrl ctx 0 env])
  ultimately show ?thesis using rc module_udp_run_loop_enters by simp
qed

text \<open>An iteration with an empty datagram, followed by one that ends the run.\<close>

theorem zero_recv_is_ignored_witness:
  "module_udp_run_iter 3 4 5 ctx_ex [selected 1 [6], returned 0, selected (- 9) []] =
     Some (0, [(Util_select 6 (Some [3, 6]) None, selected 1 [6]), (Recv 6 4096, returned 0)],
       [selected (- 9) []]) \<and>
   ret (returned 0) = 0 \<and>
   link_writes [(Util_select 6 (Some [3, 6]) None, selected 1 [6]), (Recv 6 4096, returned 0)]
     = [] \<and>
   module_udp_run_loop 3 4 5 ctx_ex 0 [selected 1 [6], returned 0, selected (- 9) []] =
     Some (- 9,
       [(Util_select 6 (Some [3, 6]) None, selected 1 [6]), (Recv 6 4096, returned 0),
        (Util_select 6 (Some [3, 6]) None, selected (- 9) [])], [])"
proof -
  let ?evs = "[(Util_select 6 (Some [3, 6]) None, selected 1 [6]), (Recv 6 4096, returned 0)]"
  have it: "module_udp_run_iter 3 4 5 ctx_ex [selected 1 [6], returned 0, selected (- 9) []] =
     Some (0, ?evs, [selected (- 9) []])"
    by (simp add: run_defs ex_defs c_defs)
  have mem: "(Recv 6 4096, returned 0) \<in> set ?evs" by simp
  have zero: "ret (returned 0) = 0" by (simp add: ex_defs)
  have next_it: "module_udp_run_loop 3 4 5 ctx_ex 0 [selected (- 9) []] =
     Some (- 9, [(Util_select 6 (Some [3, 6]) None, selected (- 9) [])], [])"
    by (simp add: run_defs ex_defs c_defs)
  from zero_recv_is_ignored[OF it mem zero] it zero next_it show ?thesis
    by (simp add: emit_def)
qed

text \<open>
  C2. What the code does when \<open>sendto\<close> fails with \<open>EAGAIN\<close> and the wait for
  writability then reports one ready descriptor, the count a readiness wait gives on
  success (the forwarding loop maps such a positive count to zero after its own wait):
  the send loop keeps the count in \<open>rc\<close>, makes no further \<open>sendto\<close>, and
  \<open>module_udp_run\<close> returns 1 with none of the five bytes sent.
\<close>

theorem would_block_send_ends_run:
  "module_udp_run 3 4 5 ctx_ex
     [returned 0, returned 0, selected 1 [3], returned 5, failed EAGAIN, selected 1 [6]] =
   Some (1,
     [(Fd_nonblock_set 3 True, returned 0), (Fd_nonblock_set 6 True, returned 0),
      (Util_select 6 (Some [3, 6]) None, selected 1 [3]), (Read 3 4096, returned 5),
      (Sendto 6 0 5 1 16, failed EAGAIN), (Util_select 6 None (Some [6]), selected 1 [6])],
     [])"
  by (simp add: run_defs ex_defs c_defs)

text \<open>
  C4. What the code does when the readiness wait fails with \<open>-9\<close> and leaves the link
  descriptor flagged in the set (a failed \<open>select\<close> leaves the sets as they were passed
  in, with both descriptors flagged). The link branch is not guarded by \<open>rc == 0\<close>: a
  read of zero bytes replaces the error by \<open>-EPIPE\<close>; a read of five bytes that are
  then sent replaces it by zero, so that the socket is read and the loop is entered again.
\<close>

theorem select_error_is_overwritten:
  "module_udp_run 3 4 5 ctx_ex [returned 0, returned 0, selected (- 9) [3, 6], returned 0] =
   Some (- 32,
     [(Fd_nonblock_set 3 True, returned 0), (Fd_nonblock_set 6 True, returned 0),
      (Util_select 6 (Some [3, 6]) None, selected (- 9) [3, 6]), (Read 3 4096, returned 0)],
     []) \<and>
   module_udp_run 3 4 5 ctx_ex
     [returned 0, returned 0, selected (- 9) [3, 6], returned 5, returned 5, failed EAGAIN,
      selected 1 [3], returned 0] =
   Some (- 32,
     [(Fd_nonblock_set 3 True, returned 0), (Fd_nonblock_set 6 True, returned 0),
      (Util_select 6 (Some [3, 6]) None, selected (- 9) [3, 6]), (Read 3 4096, returned 5),
      (Sendto 6 0 5 1 16, returned 5), (Recv 6 4096, failed EAGAIN),
      (Util_select 6 (Some [3, 6]) None, selected 1 [3]), (Read 3 4096, returned 0)],
     [])"
  by (simp add: run_defs ex_defs c_defs)

subsection \<open>Resolution and initialisation\<close>

text \<open>
  C10. For every host and port, when \<open>getaddrinfo\<close> returns anything but zero,
  \<open>udp_ainfo_get\<close> leaves \<open>NULL\<close> in the caller's pointer, whatever the lookup left
  there, and returns \<open>-ENOPROTOOPT\<close>, a negative number, whatever the lookup returned.
\<close>

theorem udp_ainfo_get_failure:
  assumes "fst gai \<noteq> 0"
  shows "udp_ainfo_get host port gai =
    (- ENOPROTOOPT, None, [Getaddrinfo host port (host = None)]) \<and> - ENOPROTOOPT < 0"
  using assms by (simp add: udp_ainfo_get_def Let_def P_ERR_def ENOPROTOOPT_def)

theorem udp_ainfo_get_failure_witness:
  "fst (- 2 :: int, Some \<lparr>ai_family = 2, ai_socktype = 2, ai_protocol = 17,
        ai_addr = 9, ai_addrlen = 16\<rparr>) \<noteq> 0 \<and>
   udp_ainfo_get (Some ''192.168.4.1'') 0xc001
     (- 2, Some \<lparr>ai_family = 2, ai_socktype = 2, ai_protocol = 17,
        ai_addr = 9, ai_addrlen = 16\<rparr>) =
     (- 92, None, [Getaddrinfo (Some ''192.168.4.1'') 0xc001 False])"
  using udp_ainfo_get_failure[of "(- 2, Some \<lparr>ai_family = 2, ai_socktype = 2,
        ai_protocol = 17, ai_addr = 9, ai_addrlen = 16\<rparr>)" "Some ''192.168.4.1''" "0xc001"]
  by (simp add: ENOPROTOOPT_def)

text \<open>On every path on which the context is allocated and initialisation returns, the
  first lookup is for the host and port of the role the configuration selects; a context
  is stored exactly when the return code is zero.\<close>

lemma module_udp_init_first_lookup:
  assumes "module_udp_init is_true conf env = Some (rc, ud, evs)"
    and "ie_alloc env = Some c0"
  shows "take 2 evs =
      [Alloc, Getaddrinfo
         (Some (if \<exists>v. conf ''server'' = Some v \<and> is_true v
                then ''192.168.4.10'' else ''192.168.4.1'')) 0xc001 False] \<and>
    (if rc = 0 then
       (\<exists>ctx la.
          ud = Some ctx \<and>
          uc_type ctx = (if \<exists>v. conf ''server'' = Some v \<and> is_true v
                         then PPPOAT_NODE_MASTER else PPPOAT_NODE_SLAVE) \<and>
          uc_ainfo ctx = snd (ie_gai_remote env) \<and>
          uc_sock ctx = fst (ie_socket env) \<and>
          ie_gai_local env = (0, Some la) \<and>
          drop 2 evs =
            [Getaddrinfo None 0xc001 True,
             Socket (ai_family la) (ai_socktype la) (ai_protocol la),
             Bind (uc_sock ctx) (ai_addr la) (ai_addrlen la),
             Freeaddrinfo (Some la)])
     else ud = None)"
proof (cases "conf ''server''")
  case None
  with assms show ?thesis
    by (cases "ie_gai_local env")
      (auto simp: init_defs P_ERR_def ENOPROTOOPT_def
        split: if_splits option.splits prod.splits)
next
  case (Some v)
  with assms show ?thesis
    by (cases "ie_gai_local env")
      (auto simp: init_defs P_ERR_def ENOPROTOOPT_def
        split: if_splits option.splits prod.splits)
qed

text \<open>
  C5. For every configuration, in every environment in which the allocation, both
  lookups, \<open>socket\<close> and \<open>bind\<close> succeed, initialisation returns zero and stores a
  context whose role is master (the initiator) exactly when the option \<open>server\<close> is
  present and true, and slave (the responder) when it is absent or not true. The master
  looks up the responder's host \<open>192.168.4.10\<close> on port \<open>0xc001\<close> and keeps the result
  as its remote address; the slave does so for the initiator's host \<open>192.168.4.1\<close> on
  port \<open>0xc001\<close>. Either binds its socket to the wildcard address looked up for port
  \<open>0xc001\<close>.
\<close>

theorem module_udp_init_endpoints:
  assumes "ie_alloc env = Some c0"
    and "ie_gai_remote env = (0, Some ra)"
    and "ie_gai_local env = (0, Some la)"
    and "0 \<le> fst (ie_socket env)"
    and "fst (ie_bind env) = 0"
  shows "module_udp_init is_true conf env =
    Some (0,
      Some \<lparr>uc_type = (if \<exists>v. conf ''server'' = Some v \<and> is_true v
                         then PPPOAT_NODE_MASTER else PPPOAT_NODE_SLAVE),
            uc_ainfo = Some ra,
            uc_sock = fst (ie_socket env)\<rparr>,
      [Alloc,
       Getaddrinfo (Some (if \<exists>v. conf ''server'' = Some v \<and> is_true v
                          then ''192.168.4.10'' else ''192.168.4.1'')) 0xc001 False,
       Getaddrinfo None 0xc001 True,
       Socket (ai_family la) (ai_socktype la) (ai_protocol la),
       Bind (fst (ie_socket env)) (ai_addr la) (ai_addrlen la),
       Freeaddrinfo (Some la)])"
proof (cases "conf ''server''")
  case None
  with assms show ?thesis
    by (cases c0) (simp add: init_defs)
next
  case (Some v)
  with assms show ?thesis
    by (cases c0) (simp add: init_defs)
qed

text \<open>The option \<open>server\<close> set to \<open>true\<close> or \<open>1\<close> gives a master context whose remote
  address is the one looked up for \<open>192.168.4.10\<close>; set to \<open>false\<close> or \<open>0\<close>, or absent, it
  gives a slave context whose remote address is the one looked up for \<open>192.168.4.1\<close>.\<close>

theorem module_udp_init_endpoints_witness:
  "ie_alloc init_env_ex =
     Some \<lparr>uc_type = PPPOAT_NODE_SLAVE, uc_ainfo = None, uc_sock = 0\<rparr> \<and>
   ie_gai_remote init_env_ex =
     (0, Some \<lparr>ai_family = 2, ai_socktype = 2, ai_protocol = 17,
               ai_addr = 1, ai_addrlen = 16\<rparr>) \<and>
   ie_gai_local init_env_ex =
     (0, Some \<lparr>ai_family = 2, ai_socktype = 2, ai_protocol = 17,
               ai_addr = 2, ai_addrlen = 16\<rparr>) \<and>
   0 \<le> fst (ie_socket init_env_ex) \<and>
   fst (ie_bind init_env_ex) = 0 \<and>
   module_udp_init is_true_ex [''server'' \<mapsto> ''true''] init_env_ex =
     Some (0,
       Some \<lparr>uc_type = PPPOAT_NODE_MASTER,
             uc_ainfo = Some \<lparr>ai_family = 2, ai_socktype = 2, ai_protocol = 17,
                               ai_addr = 1, ai_addrlen = 16\<rparr>,
             uc_sock = 6\<rparr>,
       [Alloc, Getaddrinfo (Some ''192.168.4.10'') 0xc001 False,
        Getaddrinfo None 0xc001 True, Socket 2 2 17, Bind 6 2 16,
        Freeaddrinfo (Some \<lparr>ai_family = 2, ai_socktype = 2, ai_protocol = 17,
                             ai_addr = 2, ai_addrlen = 16\<rparr>)]) \<and>
   module_udp_init is_true_ex [''server'' \<mapsto> ''1''] init_env_ex =
     Some (0,
       Some \<lparr>uc_type = PPPOAT_NODE_MASTER,
             uc_ainfo = Some \<lparr>ai_family = 2, ai_socktype = 2, ai_protocol = 17,
                               ai_addr = 1, ai_addrlen = 16\<rparr>,
             uc_sock = 6\<rparr>,
       [Alloc, Getaddrinfo (Some ''192.168.4.10'') 0xc001 False,
        Getaddrinfo None 0xc001 True, Socket 2 2 17, Bind 6 2 16,
        Freeaddrinfo (Some \<lparr>ai_family = 2, ai_socktype = 2, ai_protocol = 17,
                             ai_addr = 2, ai_addrlen = 16\<rparr>)]) \<and>
   module_udp_init is_true_ex [''server'' \<mapsto> ''false''] init_env_ex =
     Some (0,
       Some \<lparr>uc_type = PPPOAT_NODE_SLAVE,
             uc_ainfo = Some \<lparr>ai_family = 2, ai_socktype = 2, ai_protocol = 17,
                               ai_addr = 1, ai_addrlen = 16\<rparr>,
             uc_sock = 6\<rparr>,
       [Alloc, Getaddrinfo (Some ''192.168.4.1'') 0xc001 False,
        Getaddrinfo None 0xc001 True, Socket 2 2 17, Bind 6 2 16,
        Freeaddrinfo (Some \<lparr>ai_family = 2, ai_socktype = 2, ai_protocol = 17,
                             ai_addr = 2, ai_addrlen = 16\<rparr>)]) \<and>
   module_udp_init is_true_ex [''server'' \<mapsto> ''0''] init_env_ex =
     Some (0,
       Some \<lparr>uc_type = PPPOAT_NODE_SLAVE,
             uc_ainfo = Some \<lparr>ai_family = 2, ai_socktype = 2, ai_protocol = 17,
                               ai_addr = 1, ai_addrlen = 16\<rparr>,
             uc_sock = 6\<rparr>,
       [Alloc, Getaddrinfo (Some ''192.168.4.1'') 0xc001 False,
        Getaddrinfo None 0xc001 True, Socket 2 2 17, Bind 6 2 16,
        Freeaddrinfo (Some \<lparr>ai_family = 2, ai_socktype = 2, ai_protocol = 17,
                             ai_addr = 2, ai_addrlen = 16\<rparr>)]) \<and>
   module_udp_init is_true_ex Map.empty init_env_ex =
     Some (0,
       Some \<lparr>uc_type = PPPOAT_NODE_SLAVE,
             uc_ainfo = Some \<lparr>ai_family = 2, ai_socktype = 2, ai_protocol = 17,
                               ai_addr = 1, ai_addrlen = 16\<rparr>,
             uc_sock = 6\<rparr>,
       [Alloc, Getaddrinfo (Some ''192.168.4.1'') 0xc001 False,
        Getaddrinfo None 0xc001 True, Socket 2 2 17, Bind 6 2 16,
        Freeaddrinfo (Some \<lparr>ai_family = 2, ai_socktype = 2, ai_protocol = 17,
                             ai_addr = 2, ai_addrlen = 16\<rparr>)])"
proof -
  have alloc: "ie_alloc init_env_ex =
     Some \<lparr>uc_type = PPPOAT_NODE_SLAVE, uc_ainfo = None, uc_sock = 0\<rparr>"
    by (simp add: init_env_ex_def)
  have remote: "ie_gai_remote init_env_ex =
     (0, Some \<lparr>ai_family = 2, ai_socktype = 2, ai_protocol = 17,
               ai_addr = 1, ai_addrlen = 16\<rparr>)"
    by (simp add: init_env_ex_def)
  have local: "ie_gai_local init_env_ex =
     (0, Some \<lparr>ai_family = 2, ai_socktype = 2, ai_protocol = 17,
               ai_addr = 2, ai_addrlen = 16\<rparr>)"
    by (simp add: init_env_ex_def)
  have sock: "0 \<le> fst (ie_socket init_env_ex)"
    by (simp add: init_env_ex_def)
  have bound: "fst (ie_bind init_env_ex) = 0"
    by (simp add: init_env_ex_def)
  have six: "fst (ie_socket init_env_ex) = 6"
    by (simp add: init_env_ex_def)
  note init = module_udp_init_endpoints[OF alloc remote local sock bound, of is_true_ex]
  from init[of "[''server'' \<mapsto> ''true'']"] init[of "[''server'' \<mapsto> ''1'']"]
    init[of "[''server'' \<mapsto> ''false'']"] init[of "[''server'' \<mapsto> ''0'']"]
    init[of Map.empty] alloc remote local sock bound six
  show ?thesis
    by (simp add: is_true_ex_def)
qed

text \<open>
  C6. When the context was allocated, both lookups succeeded, and then either \<open>socket\<close>
  failed or \<open>bind\<close> failed (each leaving a positive \<open>errno\<close>), initialisation returns an
  error and stores no context, after these calls: \<open>freeaddrinfo\<close> once on the local
  result and once on the remote result, \<open>close\<close> on the descriptor when \<open>socket\<close> had
  given one and no \<open>close\<close> otherwise, and \<open>pppoat_free\<close> of the context once, as the
  last call.
\<close>

theorem module_udp_init_unwinds:
  assumes "ie_alloc env = Some c0"
    and "ie_gai_remote env = (0, Some ra)"
    and "ie_gai_local env = (0, Some la)"
    and "(fst (ie_socket env) < 0 \<and> 0 < snd (ie_socket env)) \<or>
         (0 \<le> fst (ie_socket env) \<and> fst (ie_bind env) \<noteq> 0 \<and> 0 < snd (ie_bind env))"
  shows "\<exists>rc evs. module_udp_init is_true conf env = Some (rc, None, evs) \<and> rc \<noteq> 0 \<and>
    freed_ainfos evs = [Some la, Some ra] \<and>
    opened_socks evs = 1 \<and>
    closed_socks evs = (if fst (ie_socket env) < 0 then [] else [fst (ie_socket env)]) \<and>
    count_list evs Alloc = 1 \<and> count_list evs Free = 1 \<and> last evs = Free"
  using assms
  by (auto simp: module_udp_init_def udp_sock_new_def udp_ainfo_get_def udp_ainfo_put_def
      Let_def P_ERR_def split: if_splits option.splits prod.splits)

text \<open>\<open>bind\<close> fails with \<open>errno = 98\<close> on the socket 6 that \<open>socket\<close> gave.\<close>

theorem module_udp_init_unwinds_witness:
  "ie_alloc (init_env_ex\<lparr>ie_bind := (- 1, 98)\<rparr>) =
     Some \<lparr>uc_type = PPPOAT_NODE_SLAVE, uc_ainfo = None, uc_sock = 0\<rparr> \<and>
   ie_gai_remote (init_env_ex\<lparr>ie_bind := (- 1, 98)\<rparr>) =
     (0, Some \<lparr>ai_family = 2, ai_socktype = 2, ai_protocol = 17,
               ai_addr = 1, ai_addrlen = 16\<rparr>) \<and>
   ie_gai_local (init_env_ex\<lparr>ie_bind := (- 1, 98)\<rparr>) =
     (0, Some \<lparr>ai_family = 2, ai_socktype = 2, ai_protocol = 17,
               ai_addr = 2, ai_addrlen = 16\<rparr>) \<and>
   0 \<le> fst (ie_socket (init_env_ex\<lparr>ie_bind := (- 1, 98)\<rparr>)) \<and>
   fst (ie_bind (init_env_ex\<lparr>ie_bind := (- 1, 98)\<rparr>)) \<noteq> 0 \<and>
   0 < snd (ie_bind (init_env_ex\<lparr>ie_bind := (- 1, 98)\<rparr>)) \<and>
   module_udp_init is_true_ex Map.empty (init_env_ex\<lparr>ie_bind := (- 1, 98)\<rparr>) =
     Some (- 98, None,
       [Alloc, Getaddrinfo (Some ''192.168.4.1'') 0xc001 False,
        Getaddrinfo None 0xc001 True, Socket 2 2 17, Bind 6 2 16, Close 6,
        Freeaddrinfo (Some \<lparr>ai_family = 2, ai_socktype = 2, ai_protocol = 17,
                             ai_addr = 2, ai_addrlen = 16\<rparr>),
        Freeaddrinfo (Some \<lparr>ai_family = 2, ai_socktype = 2, ai_protocol = 17,
                             ai_addr = 1, ai_addrlen = 16\<rparr>),
        Free])"
proof -
  let ?env = "init_env_ex\<lparr>ie_bind := (- 1, 98)\<rparr>"
  have alloc: "ie_alloc ?env =
     Some \<lparr>uc_type = PPPOAT_NODE_SLAVE, uc_ainfo = None, uc_sock = 0\<rparr>"
    by (simp add: init_env_ex_def)
  have remote: "ie_gai_remote ?env =
     (0, Some \<lparr>ai_family = 2, ai_socktype = 2, ai_protocol = 17,
               ai_addr = 1, ai_addrlen = 16\<rparr>)"
    by (simp add: init_env_ex_def)
  have local: "ie_gai_local ?env =
     (0, Some \<lparr>ai_family = 2, ai_socktype = 2, ai_protocol = 17,
               ai_addr = 2, ai_addrlen = 16\<rparr>)"
    by (simp add: init_env_ex_def)
  have fail: "(fst (ie_socket ?env) < 0 \<and> 0 < snd (ie_socket ?env)) \<or>
     (0 \<le> fst (ie_socket ?env) \<and> fst (ie_bind ?env) \<noteq> 0 \<and> 0 < snd (ie_bind ?env))"
    by (simp add: init_env_ex_def)
  have run: "module_udp_init is_true_ex Map.empty ?env =
     Some (- 98, None,
       [Alloc, Getaddrinfo (Some ''192.168.4.1'') 0xc001 False,
        Getaddrinfo None 0xc001 True, Socket 2 2 17, Bind 6 2 16, Close 6,
        Freeaddrinfo (Some \<lparr>ai_family = 2, ai_socktype = 2, ai_protocol = 17,
                             ai_addr = 2, ai_addrlen = 16\<rparr>),
        Freeaddrinfo (Some \<lparr>ai_family = 2, ai_socktype = 2, ai_protocol = 17,
                             ai_addr = 1, ai_addrlen = 16\<rparr>),
        Free])"
    by (simp add: init_defs init_env_ex_def P_ERR_def)
  from module_udp_init_unwinds[OF alloc remote local fail, of is_true_ex Map.empty]
    alloc remote local run
  show ?thesis
    by (simp add: init_env_ex_def)
qed

end
